theory Spec2Isabelle
  imports Main "HOL-Library.Word"
begin

section \<open>ATen/EmptyTensor.cpp: allocation of an uninitialised CPU tensor\<close>

text \<open>
  A shallow embedding of \<^verbatim>\<open>aten/src/ATen/EmptyTensor.cpp\<close>. The C++ integers
  \<^verbatim>\<open>int64_t\<close> and \<^verbatim>\<open>size_t\<close> are 64-bit words (\<open>sint\<close> reads the
  signed value, \<open>uint\<close> the unsigned one), exceptions are values of the type
  \<open>error\<close> on the left of a sum, and the memory acquired from allocators is an
  explicit \<open>heap\<close> that every allocating function takes and returns.
\<close>

subsection \<open>Data model\<close>

type_synonym int64 = "64 word"

datatype scalar_type =
  kByte | kChar | kShort | kInt | kLong | kHalf | kFloat | kDouble
  | kComplexHalf | kComplexFloat | kComplexDouble | kBool | kBFloat16

datatype memory_format = Contiguous | Preserve | ChannelsLast | ChannelsLast3d

datatype dispatch_key = DispatchKey_CPU | DispatchKey_CUDA

datatype device_type = DeviceType_CPU | DeviceType_CUDA

datatype layout = Strided | Sparse

record device =
  dev_type :: device_type
  dev_index :: int

text \<open>
  The failures of the allocation path. \<open>ValidationError x size\<close> is the
  \<^verbatim>\<open>TORCH_CHECK\<close> of \<^verbatim>\<open>check_size_nonnegative\<close>, whose message is built from
  the offending dimension \<open>x\<close> and the whole shape \<open>size\<close>.
\<close>

datatype error =
  ValidationError int64 "int64 list"
  | OverflowError
  | UnsupportedPolicyError
  | AllocationError
  | InternalAssertError
  | LayoutError memory_format

text \<open>
  The heap: the buffers that are live, each with its pointer, the allocator it came
  from and its length in bytes, and the next fresh pointer.
\<close>

record heap =
  next_ptr :: nat
  live :: "(nat \<times> nat \<times> int64) list"

text \<open>
  Modelled from the spec: \<^verbatim>\<open>c10::Allocator\<close> is not under src/. An allocator has
  an identity and either hands out exactly the bytes requested or fails (section 4.3:
  allocator failure, e.g. out of memory, propagates as an AllocationError). Whether a
  request is served may depend on the heap and on the number of bytes.
\<close>

record allocator =
  alloc_id :: nat
  accepts :: "heap \<Rightarrow> int64 \<Rightarrow> bool"

text \<open>
  Modelled from the spec: \<^verbatim>\<open>Allocator::allocate\<close> is not under src/. A request that
  is served adds a live buffer of exactly the bytes requested under a fresh pointer; a
  request that is refused is an AllocationError and leaves the heap alone.
\<close>

definition allocate :: "allocator \<Rightarrow> int64 \<Rightarrow> heap \<Rightarrow> (error + nat) \<times> heap" where
  "allocate a n h =
     (if accepts a h n
      then (Inr (next_ptr h),
            h\<lparr>next_ptr := Suc (next_ptr h),
              live := (next_ptr h, alloc_id a, n) # live h\<rparr>)
      else (Inl AllocationError, h))"

text \<open>\<^verbatim>\<open>StorageImpl\<close>, as the constructor call of \<^verbatim>\<open>empty_generic\<close> fills it.\<close>

record storage_impl =
  size_bytes :: int64
  data_ptr :: nat
  storage_allocator :: allocator
  resizable :: bool

record tensor_impl =
  storage :: storage_impl
  key :: dispatch_key
  dtype :: scalar_type
  sizes :: "int64 list"
  strides :: "int64 list"

text \<open>
  Modelled from the spec: the destructor of \<^verbatim>\<open>StorageImpl\<close> is not under src/.
  When the last holder of a storage goes away its buffer is given back through the
  allocator that created it (section 4.3).
\<close>

definition release :: "storage_impl \<Rightarrow> heap \<Rightarrow> heap" where
  "release s h =
     h\<lparr>live := remove1 (data_ptr s, alloc_id (storage_allocator s), size_bytes s) (live h)\<rparr>"

text \<open>
  The collaborators of the file that are not under src/ are parameters: the table of
  element widths (\<^verbatim>\<open>TypeMeta::itemsize\<close>), the default CPU allocator
  (\<^verbatim>\<open>c10::GetCPUAllocator\<close>), the pinned allocator of the CUDA hooks (\<open>None\<close> when
  the device class has none), the stride derivation of a memory format
  (\<^verbatim>\<open>TensorImpl::empty_tensor_restride\<close>), the default element type, and whether
  the build compiles \<^verbatim>\<open>TORCH_INTERNAL_ASSERT_DEBUG_ONLY\<close> in.
\<close>

record env =
  itemsize :: "scalar_type \<Rightarrow> int64"
  cpu_allocator :: allocator
  pinned_allocator :: "allocator option"
  strides_for :: "memory_format \<Rightarrow> int64 list \<Rightarrow> error + int64 list"
  default_dtype :: scalar_type
  debug_asserts :: bool

record tensor_options =
  dtype_opt :: "scalar_type option"
  layout_opt :: "layout option"
  device_opt :: "device option"
  pinned_memory_opt :: "bool option"
  memory_format_opt :: "memory_format option"

subsection \<open>Allocator selection\<close>

text \<open>
  Modelled from the spec: \<^verbatim>\<open>CUDAHooksInterface::getPinnedMemoryAllocator\<close> is not
  under src/. Section 4.2: resolution fails with an UnsupportedPolicyError when the
  requested combination has no registered allocator, and does not allocate.
\<close>

definition getPinnedMemoryAllocator :: "env \<Rightarrow> error + allocator" where
  "getPinnedMemoryAllocator e =
     (case pinned_allocator e of None \<Rightarrow> Inl UnsupportedPolicyError | Some a \<Rightarrow> Inr a)"

definition GetCPUAllocatorMaybePinned :: "env \<Rightarrow> bool \<Rightarrow> error + allocator" where
  "GetCPUAllocatorMaybePinned e pin_memory =
     (if pin_memory then getPinnedMemoryAllocator e else Inr (cpu_allocator e))"

subsection \<open>Shape validation and sizes\<close>

fun check_size_from :: "int64 list \<Rightarrow> int64 list \<Rightarrow> error + unit" where
  "check_size_from [] sz = Inr ()"
| "check_size_from (x # xs) sz =
     (if 0 \<le> sint x then check_size_from xs sz else Inl (ValidationError x sz))"

definition check_size_nonnegative :: "int64 list \<Rightarrow> error + unit" where
  "check_size_nonnegative sz = check_size_from sz sz"

text \<open>
  Modelled from the spec: \<^verbatim>\<open>c10::multiply_integers\<close> is not under src/. Section
  4.1: the product of all dimensions by overflow-checked multiplication, the product of
  an empty shape being 1.
\<close>

definition checked_mul :: "int64 \<Rightarrow> int64 \<Rightarrow> error + int64" where
  "checked_mul a b =
     (if - (2 ^ 63) \<le> sint a * sint b \<and> sint a * sint b < 2 ^ 63
      then Inr (a * b) else Inl OverflowError)"

text \<open>
  Modelled from the spec: the loop of \<^verbatim>\<open>multiply_integers\<close>, from the left, every
  step a checked multiplication.
\<close>

fun multiply_from :: "int64 \<Rightarrow> int64 list \<Rightarrow> error + int64" where
  "multiply_from acc [] = Inr acc"
| "multiply_from acc (x # xs) =
     (case checked_mul acc x of Inl e \<Rightarrow> Inl e | Inr p \<Rightarrow> multiply_from p xs)"

text \<open>
  Modelled from the spec: \<^verbatim>\<open>c10::multiply_integers\<close> starts the product at 1, so the
  empty shape has one element.
\<close>

definition multiply_integers :: "int64 list \<Rightarrow> error + int64" where
  "multiply_integers sz = multiply_from 1 sz"

text \<open>
  Modelled from the spec: \<^verbatim>\<open>scalarTypeToTypeMeta\<close> is not under src/. Section 3: an
  element type is a tag with a fixed width, so the \<^verbatim>\<open>TypeMeta\<close> of a scalar type is
  the tag itself.
\<close>

definition scalarTypeToTypeMeta :: "scalar_type \<Rightarrow> scalar_type" where
  "scalarTypeToTypeMeta t = t"

subsection \<open>Building the tensor\<close>

text \<open>
  Modelled from the spec: the constructor of \<^verbatim>\<open>TensorImpl\<close> is not under src/. A
  fresh tensor has the default shape (the comment in \<^verbatim>\<open>empty_generic\<close>: size [0])
  with the stride that goes with it.
\<close>

definition make_tensor_base :: "storage_impl \<Rightarrow> dispatch_key \<Rightarrow> scalar_type \<Rightarrow> tensor_impl" where
  "make_tensor_base s k t =
     \<lparr>storage = s, key = k, dtype = t, sizes = [0], strides = [1]\<rparr>"

text \<open>
  Modelled from the spec: \<^verbatim>\<open>TensorImpl::set_sizes_contiguous\<close> is not under src/.
  Section 4.4: the last dimension has stride 1 and each preceding stride is the
  cumulative product of the sizes to its right, where a dimension of size 0 or 1 does
  not change the cumulative product (a size below 1 counts as 1).
\<close>

definition size_or_one :: "int64 \<Rightarrow> int64" where
  "size_or_one d = (if 1 \<le> sint d then d else 1)"

text \<open>
  Modelled from the spec: the row-major strides of section 4.4, from the last dimension
  to the first, with 64-bit multiplication.
\<close>

fun contiguous_strides :: "int64 list \<Rightarrow> int64 list" where
  "contiguous_strides [] = []"
| "contiguous_strides [d] = [1]"
| "contiguous_strides (d # d' # ds) =
     (hd (contiguous_strides (d' # ds)) * size_or_one d') # contiguous_strides (d' # ds)"

text \<open>
  Modelled from the spec: \<^verbatim>\<open>set_sizes_contiguous\<close> stores the shape and its row-major
  strides.
\<close>

definition set_sizes_contiguous :: "int64 list \<Rightarrow> tensor_impl \<Rightarrow> tensor_impl" where
  "set_sizes_contiguous sz t = t\<lparr>sizes := sz, strides := contiguous_strides sz\<rparr>"

text \<open>
  Modelled from the spec: \<^verbatim>\<open>TensorImpl::empty_tensor_restride\<close> is not under src/.
  Section 3: restriding rewrites the strides of a Descriptor in place, never its
  Storage; the strides are those the layout derivation gives for the sizes.
\<close>

definition empty_tensor_restride :: "env \<Rightarrow> memory_format \<Rightarrow> tensor_impl \<Rightarrow> error + tensor_impl" where
  "empty_tensor_restride e mf t =
     (case strides_for e mf (sizes t) of
        Inl err \<Rightarrow> Inl err
      | Inr s \<Rightarrow> Inr (t\<lparr>strides := s\<rparr>))"

text \<open>
  \<^verbatim>\<open>empty_generic\<close>. The buffer is acquired while the arguments of the storage
  constructor are evaluated, so a failing allocator leaves no storage; a failure of the
  restride unwinds through the local tensor, whose storage is released.
\<close>

definition empty_generic ::
  "env \<Rightarrow> int64 list \<Rightarrow> allocator \<Rightarrow> dispatch_key \<Rightarrow> scalar_type \<Rightarrow> memory_format option
     \<Rightarrow> heap \<Rightarrow> (error + tensor_impl) \<times> heap" where
  "empty_generic e sz a dk scalar_type mf_opt h =
     (case check_size_nonnegative sz of
        Inl err \<Rightarrow> (Inl err, h)
      | Inr _ \<Rightarrow>
     (case multiply_integers sz of
        Inl err \<Rightarrow> (Inl err, h)
      | Inr nelements \<Rightarrow>
     (let dt = scalarTypeToTypeMeta scalar_type;
          nbytes = nelements * itemsize e dt
      in case allocate a nbytes h of
        (Inl err, h1) \<Rightarrow> (Inl err, h1)
      | (Inr p, h1) \<Rightarrow>
     (let storage_impl =
            \<lparr>size_bytes = nbytes, data_ptr = p, storage_allocator = a, resizable = True\<rparr>;
          tensor0 = make_tensor_base storage_impl dk dt;
          tensor = (if length sz \<noteq> 1 \<or> sz ! 0 \<noteq> 0
                    then set_sizes_contiguous sz tensor0 else tensor0)
      in case mf_opt of
        None \<Rightarrow> (Inr tensor, h1)
      | Some mf \<Rightarrow>
          if mf \<noteq> Contiguous
          then (case empty_tensor_restride e mf tensor of
                  Inl err \<Rightarrow> (Inl err, release storage_impl h1)
                | Inr tensor' \<Rightarrow> (Inr tensor', h1))
          else (Inr tensor, h1)))))"

text \<open>
  The tensor that \<^verbatim>\<open>empty_generic\<close> has built once the buffer \<open>p\<close> of
  \<open>nbytes\<close> bytes is acquired and before a memory format is looked at: the fresh
  tensor over the new storage, with sizes and strides set unless the shape is the
  default one.
\<close>

definition built :: "int64 list \<Rightarrow> allocator \<Rightarrow> dispatch_key \<Rightarrow> scalar_type \<Rightarrow> int64 \<Rightarrow> nat \<Rightarrow> tensor_impl" where
  "built sz a dk T nbytes p =
     (let t0 = make_tensor_base
                 \<lparr>size_bytes = nbytes, data_ptr = p, storage_allocator = a, resizable = True\<rparr> dk T
      in if sz \<noteq> [0] then set_sizes_contiguous sz t0 else t0)"

subsection \<open>The three entry points for the CPU\<close>

definition empty_cpu ::
  "env \<Rightarrow> int64 list \<Rightarrow> scalar_type \<Rightarrow> bool \<Rightarrow> memory_format option
     \<Rightarrow> heap \<Rightarrow> (error + tensor_impl) \<times> heap" where
  "empty_cpu e sz dt pin_memory mf_opt h =
     (case GetCPUAllocatorMaybePinned e pin_memory of
        Inl err \<Rightarrow> (Inl err, h)
      | Inr a \<Rightarrow> empty_generic e sz a DispatchKey_CPU dt mf_opt h)"

text \<open>
  Modelled from the spec: the default resolution of \<^verbatim>\<open>TensorOptions\<close> is not under
  src/. Section 6: device, layout and pinning defaults are resolved before the core
  runs. An unset device is the CPU, an unset layout is strided, unset pinning is off, and
  an unset element type is the default one of the environment.
\<close>

definition device_or_default :: "device option \<Rightarrow> device" where
  "device_or_default d =
     (case d of None \<Rightarrow> \<lparr>dev_type = DeviceType_CPU, dev_index = - 1\<rparr> | Some v \<Rightarrow> v)"

definition layout_or_default :: "layout option \<Rightarrow> layout" where
  "layout_or_default l = (case l of None \<Rightarrow> Strided | Some v \<Rightarrow> v)"

definition pinned_memory_or_default :: "bool option \<Rightarrow> bool" where
  "pinned_memory_or_default p = (case p of None \<Rightarrow> False | Some v \<Rightarrow> v)"

definition dtype_or_default :: "env \<Rightarrow> scalar_type option \<Rightarrow> scalar_type" where
  "dtype_or_default e d = (case d of None \<Rightarrow> default_dtype e | Some v \<Rightarrow> v)"

text \<open>
  The overload on optional fields. Its two assertions are compiled in only in a debug
  build, where a device that is not the CPU or a layout that is not strided stops the
  call.
\<close>

definition empty_cpu_opt ::
  "env \<Rightarrow> int64 list \<Rightarrow> scalar_type option \<Rightarrow> layout option \<Rightarrow> device option
     \<Rightarrow> bool option \<Rightarrow> memory_format option \<Rightarrow> heap \<Rightarrow> (error + tensor_impl) \<times> heap" where
  "empty_cpu_opt e sz dt_opt l_opt d_opt pin_opt mf_opt h =
     (let dev = device_or_default d_opt in
      if debug_asserts e \<and> dev_type dev \<noteq> DeviceType_CPU then (Inl InternalAssertError, h)
      else if debug_asserts e \<and> layout_or_default l_opt \<noteq> Strided
      then (Inl InternalAssertError, h)
      else
        (let pin_memory = pinned_memory_or_default pin_opt;
             dt = dtype_or_default e dt_opt
         in empty_cpu e sz dt pin_memory mf_opt h))"

text \<open>
  Modelled from the spec: \<^verbatim>\<open>optTypeMetaToScalarType\<close> is not under src/; with the
  \<^verbatim>\<open>TypeMeta\<close> of a scalar type being its tag, it leaves the optional tag as it is.
\<close>

definition optTypeMetaToScalarType :: "scalar_type option \<Rightarrow> scalar_type option" where
  "optTypeMetaToScalarType t = t"

definition empty_cpu_options ::
  "env \<Rightarrow> int64 list \<Rightarrow> tensor_options \<Rightarrow> heap \<Rightarrow> (error + tensor_impl) \<times> heap" where
  "empty_cpu_options e sz options h =
     empty_cpu_opt e sz
       (optTypeMetaToScalarType (dtype_opt options))
       (layout_opt options)
       (device_opt options)
       (pinned_memory_opt options)
       (memory_format_opt options) h"

subsection \<open>An instance of the collaborators\<close>

text \<open>
  Modelled from the spec: the width table, the allocators and the layout engine are not
  under src/. This instance runs the functions on concrete inputs: widths in bytes of
  the element types, a default allocator that serves requests of up to \<open>2 ^ 32\<close>
  bytes, no pinned allocator, and a layout engine that knows the contiguous format and
  the channels-last permutation of a shape of rank 4 (section 4.4).
\<close>

fun sample_itemsize :: "scalar_type \<Rightarrow> int64" where
  "sample_itemsize kByte = 1"
| "sample_itemsize kChar = 1"
| "sample_itemsize kShort = 2"
| "sample_itemsize kInt = 4"
| "sample_itemsize kLong = 8"
| "sample_itemsize kHalf = 2"
| "sample_itemsize kFloat = 4"
| "sample_itemsize kDouble = 8"
| "sample_itemsize kComplexHalf = 4"
| "sample_itemsize kComplexFloat = 8"
| "sample_itemsize kComplexDouble = 16"
| "sample_itemsize kBool = 1"
| "sample_itemsize kBFloat16 = 2"

text \<open>
  Modelled from the spec: a default allocator that runs out of memory above \<open>2 ^ 32\<close>
  bytes.
\<close>

definition sample_allocator :: allocator where
  "sample_allocator = \<lparr>alloc_id = 0, accepts = (\<lambda>h n. uint n \<le> 2 ^ 32)\<rparr>"

text \<open>
  Modelled from the spec: a layout engine (section 4.4). Channels-last on a shape
  \<open>[n, c, h, w]\<close> walks the dimensions in the order c, w, h, n; a format with no
  derivation for the shape is an error.
\<close>

fun sample_strides_for :: "memory_format \<Rightarrow> int64 list \<Rightarrow> error + int64 list" where
  "sample_strides_for Contiguous sz = Inr (contiguous_strides sz)"
| "sample_strides_for ChannelsLast [n, c, h, w] = Inr [h * w * c, 1, w * c, c]"
| "sample_strides_for mf sz = Inl (LayoutError mf)"

definition sample_env :: env where
  "sample_env =
     \<lparr>itemsize = sample_itemsize, cpu_allocator = sample_allocator,
      pinned_allocator = None, strides_for = sample_strides_for,
      default_dtype = kFloat, debug_asserts = False\<rparr>"

text \<open>The same collaborators in a debug build, where the internal assertions run.\<close>

definition sample_debug_env :: env where
  "sample_debug_env = sample_env\<lparr>debug_asserts := True\<rparr>"

definition empty_heap :: heap where
  "empty_heap = \<lparr>next_ptr = 0, live = []\<rparr>"

section \<open>Properties\<close>

subsection \<open>Shape validation\<close>

lemma check_size_from_Inr:
  "check_size_from xs sz = Inr u \<longleftrightarrow> (\<forall>x\<in>set xs. 0 \<le> sint x)"
  by (induction xs) auto

lemma check_size_from_Inl:
  "check_size_from xs sz = Inl err \<Longrightarrow> \<exists>x\<in>set xs. sint x < 0 \<and> err = ValidationError x sz"
  by (induction xs) (auto split: if_splits)

lemma check_size_from_find:
  "check_size_from xs sz =
     (case find (\<lambda>x. sint x < 0) xs of None \<Rightarrow> Inr () | Some x \<Rightarrow> Inl (ValidationError x sz))"
  by (induction xs) auto

lemma check_nonneg_iff: "check_size_nonnegative sz = Inr () \<longleftrightarrow> (\<forall>x\<in>set sz. 0 \<le> sint x)"
  by (simp add: check_size_nonnegative_def check_size_from_Inr)

subsection \<open>Checked products\<close>

lemma checked_mul_Inr:
  assumes "checked_mul a b = Inr p"
  shows "p = a * b" and "sint p = sint a * sint b"
proof -
  from assms have r: "- (2 ^ 63) \<le> sint a * sint b" "sint a * sint b < 2 ^ 63" and p: "p = a * b"
    by (auto simp: checked_mul_def split: if_splits)
  show "p = a * b" by (rule p)
  have "sint (a * b) = signed_take_bit 63 (sint a * sint b)"
    by (simp add: sint_word_ariths)
  also have "\<dots> = sint a * sint b"
    using r by (simp add: signed_take_bit_int_eq_self)
  finally show "sint p = sint a * sint b" by (simp add: p)
qed

lemma checked_mul_Inl: "checked_mul a b = Inl err \<Longrightarrow> err = OverflowError"
  by (auto simp: checked_mul_def split: if_splits)

lemma multiply_from_Inr:
  "multiply_from acc xs = Inr n \<Longrightarrow> sint n = sint acc * prod_list (map sint xs)"
proof (induction xs arbitrary: acc)
  case Nil
  then show ?case by simp
next
  case (Cons x xs)
  then obtain p where p: "checked_mul acc x = Inr p" and r: "multiply_from p xs = Inr n"
    by (auto split: sum.splits)
  from Cons.IH [OF r] checked_mul_Inr(2) [OF p] show ?case
    by (simp add: mult.assoc)
qed

lemma multiply_from_Inl: "multiply_from acc xs = Inl err \<Longrightarrow> err = OverflowError"
  by (induction xs arbitrary: acc) (auto split: sum.splits dest: checked_mul_Inl)

lemma multiply_from_overflow:
  assumes "0 \<le> sint acc" and "\<forall>x\<in>set xs. 0 \<le> sint x"
    and "2 ^ 63 \<le> sint acc * prod_list (map sint xs)"
  shows "multiply_from acc xs = Inl OverflowError"
  using assms
proof (induction xs arbitrary: acc)
  case Nil
  have "sint acc < 2 ^ 63" using sint_lt [of acc] by simp
  with Nil show ?case by simp
next
  case (Cons x xs)
  show ?case
  proof (cases "checked_mul acc x")
    case (Inl err)
    then show ?thesis using checked_mul_Inl [OF Inl] by simp
  next
    case (Inr p)
    have sp: "sint p = sint acc * sint x" by (rule checked_mul_Inr(2) [OF Inr])
    have "0 \<le> sint p" using Cons.prems by (simp add: sp)
    moreover have "\<forall>y\<in>set xs. 0 \<le> sint y" using Cons.prems by simp
    moreover have "2 ^ 63 \<le> sint p * prod_list (map sint xs)"
      using Cons.prems by (simp add: sp mult.assoc)
    ultimately have "multiply_from p xs = Inl OverflowError" by (rule Cons.IH)
    then show ?thesis by (simp add: Inr)
  qed
qed

lemma uint_mul_sint:
  "uint (n * w) = (sint n * uint w) mod 2 ^ 64" for n w :: int64
proof -
  have "uint (word_of_int (sint n) :: int64) = sint n mod 2 ^ LENGTH(64)"
    by (rule uint_word_of_int)
  then have a: "uint n = sint n mod 2 ^ LENGTH(64)" by simp
  have "uint (n * w) = (uint n * uint w) mod 2 ^ LENGTH(64)"
    by (simp add: uint_word_ariths)
  also have "\<dots> = (sint n mod 2 ^ LENGTH(64) * uint w) mod 2 ^ LENGTH(64)"
    by (simp only: a)
  also have "\<dots> = (sint n * uint w) mod 2 ^ LENGTH(64)"
    by (rule mod_mult_left_eq)
  finally show ?thesis by simp
qed

subsection \<open>The paths through \<^verbatim>\<open>empty_generic\<close>\<close>

lemma allocate_Inl:
  "allocate a n h = (Inl err, h1) \<Longrightarrow> err = AllocationError \<and> h1 = h \<and> \<not> accepts a h n"
  by (auto simp: allocate_def split: if_splits)

lemma allocate_Inr:
  "allocate a n h = (Inr p, h1) \<Longrightarrow>
     accepts a h n \<and> p = next_ptr h \<and>
     h1 = h\<lparr>next_ptr := Suc (next_ptr h), live := (next_ptr h, alloc_id a, n) # live h\<rparr>"
  by (auto simp: allocate_def split: if_splits)

lemma release_allocate:
  "allocate a n h = (Inr p, h1) \<Longrightarrow>
     live (release \<lparr>size_bytes = n, data_ptr = p, storage_allocator = a, resizable = r\<rparr> h1) = live h"
  by (auto simp: allocate_def release_def split: if_splits)

lemma default_shape_iff: "(length sz = Suc 0 \<and> sz ! 0 = 0) \<longleftrightarrow> sz = [0]" for sz :: "int64 list"
  by (cases sz) auto

lemma empty_generic_invalid:
  "check_size_nonnegative sz = Inl err \<Longrightarrow> empty_generic e sz a dk T mf h = (Inl err, h)"
  by (simp add: empty_generic_def)

lemma empty_generic_overflow:
  "check_size_nonnegative sz = Inr u \<Longrightarrow> multiply_integers sz = Inl err \<Longrightarrow>
     empty_generic e sz a dk T mf h = (Inl err, h)"
  by (simp add: empty_generic_def)

lemma empty_generic_alloc_fails:
  "check_size_nonnegative sz = Inr u \<Longrightarrow> multiply_integers sz = Inr n \<Longrightarrow>
     \<not> accepts a h (n * itemsize e T) \<Longrightarrow>
     empty_generic e sz a dk T mf h = (Inl AllocationError, h)"
  by (simp add: empty_generic_def allocate_def scalarTypeToTypeMeta_def)

lemma empty_generic_plain:
  assumes "check_size_nonnegative sz = Inr u" and "multiply_integers sz = Inr n"
    and "allocate a (n * itemsize e T) h = (Inr p, h1)"
  shows "empty_generic e sz a dk T None h = (Inr (built sz a dk T (n * itemsize e T) p), h1)"
  using assms
  by (simp add: empty_generic_def scalarTypeToTypeMeta_def default_shape_iff built_def Let_def)

lemma empty_generic_contiguous:
  "empty_generic e sz a dk T (Some Contiguous) h = empty_generic e sz a dk T None h"
  by (simp add: empty_generic_def Let_def split: sum.splits prod.splits)

lemma empty_generic_restride:
  assumes "check_size_nonnegative sz = Inr u" and "multiply_integers sz = Inr n"
    and "allocate a (n * itemsize e T) h = (Inr p, h1)" and "mf \<noteq> Contiguous"
  shows "empty_generic e sz a dk T (Some mf) h =
     (case empty_tensor_restride e mf (built sz a dk T (n * itemsize e T) p) of
        Inl err \<Rightarrow> (Inl err, h\<lparr>next_ptr := Suc (next_ptr h)\<rparr>)
      | Inr t \<Rightarrow> (Inr t, h1))"
proof -
  have l: "release \<lparr>size_bytes = n * itemsize e T, data_ptr = p, storage_allocator = a, resizable = True\<rparr> h1
      = h\<lparr>next_ptr := Suc (next_ptr h)\<rparr>"
    using allocate_Inr [OF assms(3)] by (simp add: release_def)
  show ?thesis
    using assms l
    by (cases "sz = [0]")
      (auto simp: empty_generic_def scalarTypeToTypeMeta_def default_shape_iff built_def Let_def
            split: sum.splits)
qed

lemma empty_generic_cases:
  obtains (invalid) err where "check_size_nonnegative sz = Inl err"
  | (overflow) err where "check_size_nonnegative sz = Inr ()" "multiply_integers sz = Inl err"
  | (refused) n where "check_size_nonnegative sz = Inr ()" "multiply_integers sz = Inr n"
      "\<not> accepts a h (n * itemsize e T)"
  | (served) n where "check_size_nonnegative sz = Inr ()" "multiply_integers sz = Inr n"
      "allocate a (n * itemsize e T) h =
         (Inr (next_ptr h),
          h\<lparr>next_ptr := Suc (next_ptr h),
            live := (next_ptr h, alloc_id a, n * itemsize e T) # live h\<rparr>)"
proof (cases "check_size_nonnegative sz")
  case (Inl err)
  then show ?thesis by (rule invalid)
next
  case (Inr u)
  then have c: "check_size_nonnegative sz = Inr ()" by simp
  show ?thesis
  proof (cases "multiply_integers sz")
    case (Inl err)
    with c show ?thesis by (rule overflow)
  next
    case (Inr n)
    show ?thesis
    proof (cases "accepts a h (n * itemsize e T)")
      case True
      then have "allocate a (n * itemsize e T) h =
         (Inr (next_ptr h),
          h\<lparr>next_ptr := Suc (next_ptr h),
            live := (next_ptr h, alloc_id a, n * itemsize e T) # live h\<rparr>)"
        by (simp add: allocate_def)
      with c Inr show ?thesis by (rule served)
    next
      case False
      with c Inr show ?thesis by (rule refused)
    qed
  qed
qed

lemma built_fields:
  "storage (built sz a dk T nbytes p) =
     \<lparr>size_bytes = nbytes, data_ptr = p, storage_allocator = a, resizable = True\<rparr>"
  "sizes (built sz a dk T nbytes p) = sz"
  "strides (built sz a dk T nbytes p) = contiguous_strides sz"
  "key (built sz a dk T nbytes p) = dk"
  "dtype (built sz a dk T nbytes p) = T"
  by (simp_all add: built_def make_tensor_base_def set_sizes_contiguous_def Let_def)

lemma restride_fields:
  "empty_tensor_restride e mf t = Inr t' \<Longrightarrow>
     storage t' = storage t \<and> sizes t' = sizes t \<and> key t' = key t \<and> dtype t' = dtype t"
  by (auto simp: empty_tensor_restride_def split: sum.splits)

lemma empty_generic_Inr:
  assumes "empty_generic e sz a dk T mf h = (Inr t, h')"
  obtains n where "check_size_nonnegative sz = Inr ()" and "multiply_integers sz = Inr n"
    and "allocate a (n * itemsize e T) h = (Inr (next_ptr h), h')"
    and "storage t = \<lparr>size_bytes = n * itemsize e T, data_ptr = next_ptr h,
                       storage_allocator = a, resizable = True\<rparr>"
    and "sizes t = sz"
    and "mf = None \<or> mf = Some Contiguous \<Longrightarrow> strides t = contiguous_strides sz"
proof (cases rule: empty_generic_cases [where sz = sz and a = a and h = h and e = e and T = T])
  case (invalid err)
  with assms show ?thesis by (simp add: empty_generic_invalid)
next
  case (overflow err)
  with assms show ?thesis by (simp add: empty_generic_overflow)
next
  case (refused n)
  with assms show ?thesis by (simp add: empty_generic_alloc_fails)
next
  case (served n)
  let ?b = "built sz a dk T (n * itemsize e T) (next_ptr h)"
  let ?h1 = "h\<lparr>next_ptr := Suc (next_ptr h),
            live := (next_ptr h, alloc_id a, n * itemsize e T) # live h\<rparr>"
  show ?thesis
  proof (cases "mf = None \<or> mf = Some Contiguous")
    case True
    then have "empty_generic e sz a dk T mf h = (Inr ?b, ?h1)"
      using empty_generic_plain [OF served] by (auto simp: empty_generic_contiguous)
    with assms have "t = ?b" "h' = ?h1" by simp_all
    with served show ?thesis by (intro that [of n]) (simp_all add: built_fields)
  next
    case False
    then obtain m where m: "mf = Some m" "m \<noteq> Contiguous" by (cases mf) auto
    from empty_generic_restride [OF served m(2)] assms m(1)
    have r: "empty_tensor_restride e m ?b = Inr t" and h: "h' = ?h1"
      by (auto split: sum.splits)
    from restride_fields [OF r] served h False show ?thesis
      by (intro that [of n]) (simp_all add: built_fields)
  qed
qed

subsection \<open>Negative dimensions\<close>

lemma find_negative:
  "x \<in> set sz \<Longrightarrow> sint x < 0 \<Longrightarrow> \<exists>y\<in>set sz. sint y < 0 \<and> find (\<lambda>d. sint d < 0) sz = Some y"
  by (induction sz) auto

text \<open>
  Claim C2. A shape that contains a dimension below 0 is refused, whatever the
  allocator, the element type and the memory format: \<^verbatim>\<open>empty_generic\<close> fails with
  the ValidationError that carries the offending dimension (the first negative one)
  and the whole shape, and the heap is as it was. \<^verbatim>\<open>empty_cpu\<close> fails in the same
  way whenever its allocator resolves.
\<close>

theorem negative_dimension_rejected:
  assumes "x \<in> set sz" and "sint x < 0"
  shows "\<exists>y\<in>set sz. sint y < 0 \<and> find (\<lambda>d. sint d < 0) sz = Some y \<and>
           empty_generic e sz a dk T mf h = (Inl (ValidationError y sz), h) \<and>
           (GetCPUAllocatorMaybePinned e pin \<noteq> Inl UnsupportedPolicyError \<longrightarrow>
              empty_cpu e sz T pin mf h = (Inl (ValidationError y sz), h))"
proof -
  from find_negative [OF assms] obtain y
    where y: "y \<in> set sz" "sint y < 0" "find (\<lambda>d. sint d < 0) sz = Some y"
    by blast
  then have c: "check_size_nonnegative sz = Inl (ValidationError y sz)"
    by (simp add: check_size_nonnegative_def check_size_from_find)
  have g: "empty_generic e sz b dk' T mf h = (Inl (ValidationError y sz), h)" for b dk'
    by (rule empty_generic_invalid [OF c])
  have "empty_cpu e sz T pin mf h = (Inl (ValidationError y sz), h)"
    if "GetCPUAllocatorMaybePinned e pin \<noteq> Inl UnsupportedPolicyError"
    using that g
    by (auto simp: empty_cpu_def GetCPUAllocatorMaybePinned_def getPinnedMemoryAllocator_def
             split: option.splits)
  with y g show ?thesis by blast
qed

theorem negative_dimension_rejected_witness:
  "- 1 \<in> set [2, - 1, 3 :: int64] \<and> sint (- 1 :: int64) < 0 \<and>
   empty_generic sample_env [2, - 1, 3] sample_allocator DispatchKey_CPU kFloat None empty_heap
     = (Inl (ValidationError (- 1) [2, - 1, 3]), empty_heap) \<and>
   GetCPUAllocatorMaybePinned sample_env False \<noteq> Inl UnsupportedPolicyError \<and>
   empty_cpu sample_env [2, - 1, 3] kFloat False None empty_heap
     = (Inl (ValidationError (- 1) [2, - 1, 3]), empty_heap)"
proof -
  have m: "- 1 \<in> set [2, - 1, 3 :: int64]" by simp
  have n: "sint (- 1 :: int64) < 0" by simp
  have r: "GetCPUAllocatorMaybePinned sample_env False \<noteq> Inl UnsupportedPolicyError"
    by (simp add: GetCPUAllocatorMaybePinned_def)
  show ?thesis
    using m n r negative_dimension_rejected [OF m n, of sample_env sample_allocator DispatchKey_CPU
        kFloat None empty_heap False]
    by simp
qed

subsection \<open>The contiguous format\<close>

text \<open>
  Claim C5. Asking \<^verbatim>\<open>empty_generic\<close> for the Contiguous format gives what asking for
  no format gives, tensor and heap alike, and that whatever the stride derivation of
  the environment is: the restride is not called, so the strides and the storage of
  the tensor just built stay as they are and nothing is allocated or copied.
\<close>

theorem contiguous_format_is_noop:
  "empty_generic e sz a dk T (Some Contiguous) h
     = empty_generic (e\<lparr>strides_for := f\<rparr>) sz a dk T None h"
  by (simp add: empty_generic_def Let_def split: sum.splits prod.splits)

theorem contiguous_format_is_noop_witness:
  "empty_generic sample_env [2, 3] sample_allocator DispatchKey_CPU kFloat (Some Contiguous)
       empty_heap =
     (Inr \<lparr>storage = \<lparr>size_bytes = 24, data_ptr = 0, storage_allocator = sample_allocator,
                       resizable = True\<rparr>,
           key = DispatchKey_CPU, dtype = kFloat, sizes = [2, 3], strides = [3, 1]\<rparr>,
      \<lparr>next_ptr = 1, live = [(0, 0, 24)]\<rparr>)"
proof -
  have c: "check_size_nonnegative [2, 3] = Inr ()"
    by (simp add: check_size_nonnegative_def)
  have m: "multiply_integers [2, 3] = Inr 6"
    by (simp add: multiply_integers_def checked_mul_def)
  have a: "allocate sample_allocator (6 * itemsize sample_env kFloat) empty_heap =
      (Inr 0, \<lparr>next_ptr = 1, live = [(0, 0, 24)]\<rparr>)"
    by (simp add: allocate_def sample_allocator_def sample_env_def empty_heap_def)
  have "empty_generic sample_env [2, 3] sample_allocator DispatchKey_CPU kFloat None empty_heap =
      (Inr (built [2, 3] sample_allocator DispatchKey_CPU kFloat (6 * itemsize sample_env kFloat) 0),
       \<lparr>next_ptr = 1, live = [(0, 0, 24)]\<rparr>)"
    by (rule empty_generic_plain [OF c m a])
  then show ?thesis
    using contiguous_format_is_noop [of sample_env "[2, 3]" sample_allocator DispatchKey_CPU
        kFloat empty_heap sample_strides_for]
    by (simp add: built_def make_tensor_base_def set_sizes_contiguous_def sample_env_def
          size_or_one_def)
qed

subsection \<open>Pinned memory without a pinned allocator\<close>

text \<open>
  Claim C6. When the device class has no pinned allocator, resolving the allocator for
  pinned memory fails with an UnsupportedPolicyError, and so does \<^verbatim>\<open>empty_cpu\<close> for
  every shape, element type and memory format, with the heap as it was: no buffer is
  allocated. Resolution reads the environment only; it neither takes nor returns the
  heap.
\<close>

theorem pinned_without_allocator_fails:
  assumes "pinned_allocator e = None"
  shows "GetCPUAllocatorMaybePinned e True = Inl UnsupportedPolicyError \<and>
         empty_cpu e sz T True mf h = (Inl UnsupportedPolicyError, h)"
  using assms
  by (simp add: empty_cpu_def GetCPUAllocatorMaybePinned_def getPinnedMemoryAllocator_def)

theorem pinned_without_allocator_fails_witness:
  "pinned_allocator sample_env = None \<and>
   GetCPUAllocatorMaybePinned sample_env True = Inl UnsupportedPolicyError \<and>
   empty_cpu sample_env [2, 3] kFloat True None empty_heap = (Inl UnsupportedPolicyError, empty_heap)"
proof -
  have p: "pinned_allocator sample_env = None" by (simp add: sample_env_def)
  show ?thesis
    using p pinned_without_allocator_fails [OF p, of "[2, 3]" kFloat None empty_heap]
    by simp
qed

subsection \<open>The default shape\<close>

lemma check_default_shape: "check_size_nonnegative [0] = Inr ()"
  by (simp add: check_size_nonnegative_def)

lemma multiply_default_shape: "multiply_integers [0] = Inr 0"
  by (simp add: multiply_integers_def checked_mul_def)

text \<open>
  Claim C4. For every element type, when the allocator serves a request of 0 bytes,
  \<^verbatim>\<open>empty_generic\<close> on the shape [0] with no memory format (or with Contiguous)
  returns the fresh tensor over a storage of 0 bytes as the constructor made it: sizes
  [0] and the default stride, which \<^verbatim>\<open>set_sizes_contiguous\<close> has not touched.
\<close>

theorem default_shape_kept:
  assumes "accepts a h 0" and "mf = None \<or> mf = Some Contiguous"
  shows "empty_generic e [0] a dk T mf h =
           (Inr (make_tensor_base
                   \<lparr>size_bytes = 0, data_ptr = next_ptr h, storage_allocator = a, resizable = True\<rparr>
                   dk T),
            h\<lparr>next_ptr := Suc (next_ptr h), live := (next_ptr h, alloc_id a, 0) # live h\<rparr>) \<and>
         sizes (make_tensor_base
                   \<lparr>size_bytes = 0, data_ptr = next_ptr h, storage_allocator = a, resizable = True\<rparr>
                   dk T) = [0] \<and>
         strides (make_tensor_base
                   \<lparr>size_bytes = 0, data_ptr = next_ptr h, storage_allocator = a, resizable = True\<rparr>
                   dk T) = [1]"
proof -
  have al: "allocate a (0 * itemsize e T) h =
      (Inr (next_ptr h),
       h\<lparr>next_ptr := Suc (next_ptr h), live := (next_ptr h, alloc_id a, 0) # live h\<rparr>)"
    using assms(1) by (simp add: allocate_def)
  have "empty_generic e [0] a dk T None h =
      (Inr (built [0] a dk T (0 * itemsize e T) (next_ptr h)),
       h\<lparr>next_ptr := Suc (next_ptr h), live := (next_ptr h, alloc_id a, 0) # live h\<rparr>)"
    by (rule empty_generic_plain [OF check_default_shape multiply_default_shape al])
  then have "empty_generic e [0] a dk T mf h =
      (Inr (built [0] a dk T (0 * itemsize e T) (next_ptr h)),
       h\<lparr>next_ptr := Suc (next_ptr h), live := (next_ptr h, alloc_id a, 0) # live h\<rparr>)"
    using assms(2) by (auto simp: empty_generic_contiguous)
  then show ?thesis by (simp add: built_def make_tensor_base_def)
qed

theorem default_shape_kept_witness:
  "accepts sample_allocator empty_heap 0 \<and>
   empty_generic sample_env [0] sample_allocator DispatchKey_CPU kDouble None empty_heap =
     (Inr \<lparr>storage = \<lparr>size_bytes = 0, data_ptr = 0, storage_allocator = sample_allocator,
                       resizable = True\<rparr>,
           key = DispatchKey_CPU, dtype = kDouble, sizes = [0], strides = [1]\<rparr>,
      \<lparr>next_ptr = 1, live = [(0, 0, 0)]\<rparr>)"
proof -
  have a: "accepts sample_allocator empty_heap 0" by (simp add: sample_allocator_def)
  show ?thesis
    using a default_shape_kept [OF a, of None sample_env DispatchKey_CPU kDouble]
    by (simp add: make_tensor_base_def empty_heap_def sample_allocator_def)
qed

text \<open>
  Claim C10. On the shape [0] with an explicit memory format other than Contiguous the
  restride is still applied: the result of \<^verbatim>\<open>empty_generic\<close> is the restride of the
  fresh tensor over the new storage of 0 bytes, whose sizes and strides the special
  case has left at their defaults. When the restride fails the storage is released.
\<close>

theorem default_shape_still_restrided:
  assumes "accepts a h 0" and "mf \<noteq> Contiguous"
  shows "empty_generic e [0] a dk T (Some mf) h =
           (case empty_tensor_restride e mf
                   (make_tensor_base
                      \<lparr>size_bytes = 0, data_ptr = next_ptr h, storage_allocator = a,
                        resizable = True\<rparr> dk T) of
              Inl err \<Rightarrow> (Inl err, h\<lparr>next_ptr := Suc (next_ptr h)\<rparr>)
            | Inr t \<Rightarrow>
                (Inr t, h\<lparr>next_ptr := Suc (next_ptr h),
                          live := (next_ptr h, alloc_id a, 0) # live h\<rparr>))"
proof -
  have al: "allocate a (0 * itemsize e T) h =
      (Inr (next_ptr h),
       h\<lparr>next_ptr := Suc (next_ptr h), live := (next_ptr h, alloc_id a, 0) # live h\<rparr>)"
    using assms(1) by (simp add: allocate_def)
  show ?thesis
    using empty_generic_restride [OF check_default_shape multiply_default_shape al assms(2), of dk]
    by (simp add: built_def)
qed

theorem default_shape_still_restrided_witness:
  "accepts sample_allocator empty_heap 0 \<and> ChannelsLast \<noteq> Contiguous \<and>
   empty_generic (sample_env\<lparr>strides_for := (\<lambda>mf sz. Inr [7])\<rparr>) [0] sample_allocator
       DispatchKey_CPU kFloat (Some ChannelsLast) empty_heap =
     (Inr \<lparr>storage = \<lparr>size_bytes = 0, data_ptr = 0, storage_allocator = sample_allocator,
                       resizable = True\<rparr>,
           key = DispatchKey_CPU, dtype = kFloat, sizes = [0], strides = [7]\<rparr>,
      \<lparr>next_ptr = 1, live = [(0, 0, 0)]\<rparr>) \<and>
   empty_generic sample_env [0] sample_allocator DispatchKey_CPU kFloat (Some ChannelsLast)
       empty_heap = (Inl (LayoutError ChannelsLast), \<lparr>next_ptr = 1, live = []\<rparr>)"
proof -
  have a: "accepts sample_allocator empty_heap 0" by (simp add: sample_allocator_def)
  have m: "ChannelsLast \<noteq> Contiguous" by simp
  show ?thesis
    using a m
      default_shape_still_restrided [OF a m, of "sample_env\<lparr>strides_for := (\<lambda>mf sz. Inr [7])\<rparr>"
        DispatchKey_CPU kFloat]
      default_shape_still_restrided [OF a m, of sample_env DispatchKey_CPU kFloat]
    by (simp add: make_tensor_base_def empty_heap_def sample_allocator_def
          empty_tensor_restride_def sample_env_def)
qed

subsection \<open>Failures\<close>

lemma empty_generic_failure_live:
  assumes "fst (empty_generic e sz a dk T mf h) = Inl err"
  shows "live (snd (empty_generic e sz a dk T mf h)) = live h"
proof (cases rule: empty_generic_cases [where sz = sz and a = a and h = h and e = e and T = T])
  case (invalid err')
  then show ?thesis by (simp add: empty_generic_invalid)
next
  case (overflow err')
  then show ?thesis by (simp add: empty_generic_overflow)
next
  case (refused n)
  then show ?thesis by (simp add: empty_generic_alloc_fails)
next
  case (served n)
  show ?thesis
  proof (cases "mf = None \<or> mf = Some Contiguous")
    case True
    then have "fst (empty_generic e sz a dk T mf h) = Inr (built sz a dk T (n * itemsize e T) (next_ptr h))"
      using empty_generic_plain [OF served, of dk] by (auto simp: empty_generic_contiguous)
    with assms show ?thesis by simp
  next
    case False
    then obtain m where m: "mf = Some m" "m \<noteq> Contiguous" by (cases mf) auto
    from empty_generic_restride [OF served m(2), of dk] assms m(1) show ?thesis
      by (auto split: sum.splits)
  qed
qed

text \<open>
  Claim C7. A failed allocation leaves nothing behind. When the allocator does not
  resolve, \<^verbatim>\<open>empty_cpu\<close> returns that error with the heap as it was; when the shape
  is refused or the element count overflows, \<^verbatim>\<open>empty_generic\<close> returns that error
  with the heap as it was, so no storage has been created; when the allocator fails, the
  result is the AllocationError and no tensor, again with the heap as it was. On every
  error path of \<^verbatim>\<open>empty_generic\<close> and of \<^verbatim>\<open>empty_cpu\<close> the live buffers of
  the heap are those there were before the call.
\<close>

theorem failure_leaves_no_partial_state:
  "(GetCPUAllocatorMaybePinned e pin = Inl err \<longrightarrow> empty_cpu e sz T pin mf h = (Inl err, h)) \<and>
   (check_size_nonnegative sz = Inl err \<longrightarrow> empty_generic e sz a dk T mf h = (Inl err, h)) \<and>
   (check_size_nonnegative sz = Inr () \<and> multiply_integers sz = Inl err \<longrightarrow>
      empty_generic e sz a dk T mf h = (Inl err, h)) \<and>
   (check_size_nonnegative sz = Inr () \<and> multiply_integers sz = Inr n \<and>
    fst (allocate a (n * itemsize e T) h) = Inl err \<longrightarrow>
      empty_generic e sz a dk T mf h = (Inl AllocationError, h)) \<and>
   (fst (empty_generic e sz a dk T mf h) = Inl err \<longrightarrow>
      live (snd (empty_generic e sz a dk T mf h)) = live h) \<and>
   (fst (empty_cpu e sz T pin mf h) = Inl err \<longrightarrow>
      live (snd (empty_cpu e sz T pin mf h)) = live h)"
proof (intro conjI impI)
  assume "GetCPUAllocatorMaybePinned e pin = Inl err"
  then show "empty_cpu e sz T pin mf h = (Inl err, h)" by (simp add: empty_cpu_def)
next
  assume "check_size_nonnegative sz = Inl err"
  then show "empty_generic e sz a dk T mf h = (Inl err, h)" by (rule empty_generic_invalid)
next
  assume "check_size_nonnegative sz = Inr () \<and> multiply_integers sz = Inl err"
  then show "empty_generic e sz a dk T mf h = (Inl err, h)"
    by (simp add: empty_generic_overflow)
next
  assume r: "check_size_nonnegative sz = Inr () \<and> multiply_integers sz = Inr n \<and>
    fst (allocate a (n * itemsize e T) h) = Inl err"
  then have "\<not> accepts a h (n * itemsize e T)" by (auto simp: allocate_def split: if_splits)
  with r show "empty_generic e sz a dk T mf h = (Inl AllocationError, h)"
    by (simp add: empty_generic_alloc_fails)
next
  assume "fst (empty_generic e sz a dk T mf h) = Inl err"
  then show "live (snd (empty_generic e sz a dk T mf h)) = live h"
    by (rule empty_generic_failure_live)
next
  assume f: "fst (empty_cpu e sz T pin mf h) = Inl err"
  show "live (snd (empty_cpu e sz T pin mf h)) = live h"
  proof (cases "GetCPUAllocatorMaybePinned e pin")
    case (Inl err')
    then show ?thesis by (simp add: empty_cpu_def)
  next
    case (Inr b)
    with f show ?thesis by (simp add: empty_cpu_def empty_generic_failure_live)
  qed
qed

theorem failure_leaves_no_partial_state_witness:
  "GetCPUAllocatorMaybePinned sample_env True = Inl UnsupportedPolicyError \<and>
   empty_cpu sample_env [2, 3] kFloat True None empty_heap = (Inl UnsupportedPolicyError, empty_heap) \<and>
   check_size_nonnegative [2, - 1, 3] = Inl (ValidationError (- 1) [2, - 1, 3]) \<and>
   empty_generic sample_env [2, - 1, 3] sample_allocator DispatchKey_CPU kFloat None empty_heap
     = (Inl (ValidationError (- 1) [2, - 1, 3]), empty_heap) \<and>
   check_size_nonnegative [4294967296, 4294967296] = Inr () \<and>
   multiply_integers [4294967296, 4294967296] = Inl OverflowError \<and>
   empty_generic sample_env [4294967296, 4294967296] sample_allocator DispatchKey_CPU kFloat None
       empty_heap = (Inl OverflowError, empty_heap) \<and>
   check_size_nonnegative [1099511627776] = Inr () \<and>
   multiply_integers [1099511627776] = Inr 1099511627776 \<and>
   fst (allocate sample_allocator (1099511627776 * itemsize sample_env kFloat) empty_heap)
     = Inl AllocationError \<and>
   empty_generic sample_env [1099511627776] sample_allocator DispatchKey_CPU kFloat None empty_heap
     = (Inl AllocationError, empty_heap) \<and>
   fst (empty_cpu sample_env [0] kFloat False (Some ChannelsLast) empty_heap)
     = Inl (LayoutError ChannelsLast) \<and>
   live (snd (empty_cpu sample_env [0] kFloat False (Some ChannelsLast) empty_heap))
     = live empty_heap"
proof -
  have r: "GetCPUAllocatorMaybePinned sample_env True = Inl UnsupportedPolicyError"
    by (simp add: GetCPUAllocatorMaybePinned_def getPinnedMemoryAllocator_def sample_env_def)
  have c1: "check_size_nonnegative [2, - 1, 3] = Inl (ValidationError (- 1) [2, - 1, 3])"
    by (simp add: check_size_nonnegative_def)
  have c2: "check_size_nonnegative [4294967296, 4294967296] = Inr ()"
    by (simp add: check_size_nonnegative_def)
  have m2: "multiply_integers [4294967296, 4294967296] = Inl OverflowError"
    by (simp add: multiply_integers_def checked_mul_def)
  have c3: "check_size_nonnegative [1099511627776] = Inr ()"
    by (simp add: check_size_nonnegative_def)
  have m3: "multiply_integers [1099511627776] = Inr 1099511627776"
    by (simp add: multiply_integers_def checked_mul_def)
  have a3: "fst (allocate sample_allocator (1099511627776 * itemsize sample_env kFloat) empty_heap)
     = Inl AllocationError"
    by (simp add: allocate_def sample_allocator_def sample_env_def)
  have g: "GetCPUAllocatorMaybePinned sample_env False = Inr sample_allocator"
    by (simp add: GetCPUAllocatorMaybePinned_def sample_env_def)
  have al: "allocate sample_allocator (0 * itemsize sample_env kFloat) empty_heap =
      (Inr 0, \<lparr>next_ptr = 1, live = [(0, 0, 0)]\<rparr>)"
    by (simp add: allocate_def sample_allocator_def empty_heap_def)
  have "empty_generic sample_env [0] sample_allocator DispatchKey_CPU kFloat (Some ChannelsLast)
      empty_heap = (Inl (LayoutError ChannelsLast), empty_heap\<lparr>next_ptr := Suc (next_ptr empty_heap)\<rparr>)"
    using empty_generic_restride [OF check_default_shape multiply_default_shape al, of ChannelsLast
        DispatchKey_CPU]
    by (simp add: built_def make_tensor_base_def empty_tensor_restride_def sample_env_def)
  then have f5: "fst (empty_cpu sample_env [0] kFloat False (Some ChannelsLast) empty_heap)
     = Inl (LayoutError ChannelsLast)"
    by (simp add: empty_cpu_def g)
  show ?thesis
    using r c1 c2 m2 c3 m3 a3 f5
      failure_leaves_no_partial_state [where e = sample_env and pin = True
        and err = UnsupportedPolicyError and sz = "[2, 3]" and T = kFloat and mf = None
        and h = empty_heap]
      failure_leaves_no_partial_state [where e = sample_env
        and err = "ValidationError (- 1) [2, - 1, 3]" and sz = "[2, - 1, 3]" and T = kFloat
        and mf = None and h = empty_heap and a = sample_allocator and dk = DispatchKey_CPU]
      failure_leaves_no_partial_state [where e = sample_env and err = OverflowError
        and sz = "[4294967296, 4294967296]" and T = kFloat and mf = None and h = empty_heap
        and a = sample_allocator and dk = DispatchKey_CPU]
      failure_leaves_no_partial_state [where e = sample_env and err = AllocationError
        and sz = "[1099511627776]" and T = kFloat and mf = None and h = empty_heap
        and a = sample_allocator and dk = DispatchKey_CPU and n = 1099511627776]
      failure_leaves_no_partial_state [where e = sample_env and pin = False
        and err = "LayoutError ChannelsLast" and sz = "[0]" and T = kFloat
        and mf = "Some ChannelsLast" and h = empty_heap]
    by simp
qed

subsection \<open>Element count and byte size of an allocation\<close>

lemma multiply_integers_product:
  "multiply_integers sz = Inr n \<Longrightarrow> sint n = prod_list (map sint sz)"
  using multiply_from_Inr [of 1 sz n] by (simp add: multiply_integers_def)

lemma multiply_integers_overflow:
  assumes "\<forall>x\<in>set sz. 0 \<le> sint x" and "2 ^ 63 \<le> prod_list (map sint sz)"
  shows "multiply_integers sz = Inl OverflowError"
  using multiply_from_overflow [of 1 sz] assms by (simp add: multiply_integers_def)

text \<open>
  Claim C1, as amended. For a shape with no negative dimension the element count is
  computed with overflow-checked multiplication: when the product of the dimensions
  does not fit into a signed 64-bit integer, and whenever \<^verbatim>\<open>multiply_integers\<close>
  fails, \<^verbatim>\<open>empty_generic\<close> fails with an OverflowError and the heap as it was. The
  byte size is not checked: it is the 64-bit product of the element count and the
  width, that is their product modulo \<open>2 ^ 64\<close>, and with no memory format (or
  Contiguous) the call returns the tensor over a storage of that many bytes, or an
  AllocationError when the allocator refuses that many bytes, never an OverflowError.
\<close>

theorem element_count_checked_byte_size_wraps:
  assumes "\<forall>x\<in>set sz. 0 \<le> sint x"
  shows "(2 ^ 63 \<le> prod_list (map sint sz) \<longrightarrow>
            empty_generic e sz a dk T mf h = (Inl OverflowError, h)) \<and>
         (multiply_integers sz = Inl err \<longrightarrow>
            err = OverflowError \<and> empty_generic e sz a dk T mf h = (Inl OverflowError, h)) \<and>
         (multiply_integers sz = Inr n \<longrightarrow>
            sint n = prod_list (map sint sz) \<and>
            uint (n * itemsize e T) = (prod_list (map sint sz) * uint (itemsize e T)) mod 2 ^ 64 \<and>
            (mf = None \<or> mf = Some Contiguous \<longrightarrow>
               empty_generic e sz a dk T mf h =
                 (if accepts a h (n * itemsize e T)
                  then (Inr (built sz a dk T (n * itemsize e T) (next_ptr h)),
                        h\<lparr>next_ptr := Suc (next_ptr h),
                          live := (next_ptr h, alloc_id a, n * itemsize e T) # live h\<rparr>)
                  else (Inl AllocationError, h))))"
proof -
  have c: "check_size_nonnegative sz = Inr ()"
    using assms by (simp add: check_nonneg_iff)
  have 1: "empty_generic e sz a dk T mf h = (Inl OverflowError, h)"
    if "2 ^ 63 \<le> prod_list (map sint sz)"
    using empty_generic_overflow [OF c multiply_integers_overflow [OF assms that]] .
  have 2: "err = OverflowError \<and> empty_generic e sz a dk T mf h = (Inl OverflowError, h)"
    if m: "multiply_integers sz = Inl err"
  proof -
    have "err = OverflowError"
      using m multiply_from_Inl [of 1 sz err] by (simp add: multiply_integers_def)
    with empty_generic_overflow [OF c m] show ?thesis by simp
  qed
  have 3: "sint n = prod_list (map sint sz) \<and>
      uint (n * itemsize e T) = (prod_list (map sint sz) * uint (itemsize e T)) mod 2 ^ 64 \<and>
      (mf = None \<or> mf = Some Contiguous \<longrightarrow>
         empty_generic e sz a dk T mf h =
           (if accepts a h (n * itemsize e T)
            then (Inr (built sz a dk T (n * itemsize e T) (next_ptr h)),
                  h\<lparr>next_ptr := Suc (next_ptr h),
                    live := (next_ptr h, alloc_id a, n * itemsize e T) # live h\<rparr>)
            else (Inl AllocationError, h)))"
    if m: "multiply_integers sz = Inr n"
  proof (intro conjI impI)
    show p: "sint n = prod_list (map sint sz)" by (rule multiply_integers_product [OF m])
    show "uint (n * itemsize e T) = (prod_list (map sint sz) * uint (itemsize e T)) mod 2 ^ 64"
      using uint_mul_sint [of n "itemsize e T"] by (simp add: p)
    assume f: "mf = None \<or> mf = Some Contiguous"
    show "empty_generic e sz a dk T mf h =
           (if accepts a h (n * itemsize e T)
            then (Inr (built sz a dk T (n * itemsize e T) (next_ptr h)),
                  h\<lparr>next_ptr := Suc (next_ptr h),
                    live := (next_ptr h, alloc_id a, n * itemsize e T) # live h\<rparr>)
            else (Inl AllocationError, h))"
    proof (cases "accepts a h (n * itemsize e T)")
      case True
      then have al: "allocate a (n * itemsize e T) h =
         (Inr (next_ptr h),
          h\<lparr>next_ptr := Suc (next_ptr h),
            live := (next_ptr h, alloc_id a, n * itemsize e T) # live h\<rparr>)"
        by (simp add: allocate_def)
      from empty_generic_plain [OF c m al, of dk] f True show ?thesis
        by (auto simp: empty_generic_contiguous)
    next
      case False
      with empty_generic_alloc_fails [OF c m False] show ?thesis by simp
    qed
  qed
  from 1 2 3 show ?thesis by blast
qed

theorem element_count_checked_byte_size_wraps_witness:
  "0 \<le> sint (4294967296 :: int64) \<and>
   (2 :: int) ^ 63 \<le> prod_list (map sint [4294967296, 4294967296 :: int64]) \<and>
   empty_generic sample_env [4294967296, 4294967296] sample_allocator DispatchKey_CPU kFloat None
       empty_heap = (Inl OverflowError, empty_heap) \<and>
   0 \<le> sint (4611686018427387904 :: int64) \<and>
   multiply_integers [4611686018427387904] = Inr 4611686018427387904 \<and>
   uint (4611686018427387904 * itemsize sample_env kDouble :: int64) = 0 \<and>
   prod_list (map sint [4611686018427387904 :: int64]) * uint (itemsize sample_env kDouble)
     = 2 ^ 65 \<and>
   empty_generic sample_env [4611686018427387904] sample_allocator DispatchKey_CPU kDouble None
       empty_heap =
     (Inr \<lparr>storage = \<lparr>size_bytes = 0, data_ptr = 0, storage_allocator = sample_allocator,
                       resizable = True\<rparr>,
           key = DispatchKey_CPU, dtype = kDouble, sizes = [4611686018427387904],
           strides = [1]\<rparr>,
      \<lparr>next_ptr = 1, live = [(0, 0, 0)]\<rparr>)"
proof -
  have a1: "\<forall>x\<in>set [4294967296, 4294967296 :: int64]. 0 \<le> sint x" by simp
  have o1: "(2 :: int) ^ 63 \<le> prod_list (map sint [4294967296, 4294967296 :: int64])" by simp
  have a2: "\<forall>x\<in>set [4611686018427387904 :: int64]. 0 \<le> sint x" by simp
  have m2: "multiply_integers [4611686018427387904] = Inr 4611686018427387904"
    by (simp add: multiply_integers_def checked_mul_def)
  have w: "itemsize sample_env kDouble = 8" by (simp add: sample_env_def)
  show ?thesis
    using a1 o1 a2 m2
      element_count_checked_byte_size_wraps [OF a1, where e = sample_env
        and a = sample_allocator and dk = DispatchKey_CPU and T = kFloat and mf = None
        and h = empty_heap]
      element_count_checked_byte_size_wraps [OF a2, where e = sample_env
        and a = sample_allocator and dk = DispatchKey_CPU and T = kDouble and mf = None
        and h = empty_heap and n = 4611686018427387904]
    by (simp add: w built_def make_tensor_base_def set_sizes_contiguous_def sample_allocator_def
          empty_heap_def)
qed

text \<open>
  Claim C1 as stated fails at the shape \<open>[2 ^ 62]\<close> with an element type of 8 bytes:
  the element count \<open>2 ^ 62\<close> does not overflow, the byte size \<open>2 ^ 65\<close> does, and the
  call returns a tensor over a storage of 0 bytes instead of an OverflowError.
\<close>

theorem byte_size_overflow_not_detected:
  "check_size_nonnegative [4611686018427387904] = Inr () \<and>
   multiply_integers [4611686018427387904] = Inr 4611686018427387904 \<and>
   sint (4611686018427387904 :: int64) * uint (itemsize sample_env kDouble) = 2 ^ 65 \<and>
   empty_generic sample_env [4611686018427387904] sample_allocator DispatchKey_CPU kDouble None
       empty_heap =
     (Inr \<lparr>storage = \<lparr>size_bytes = 0, data_ptr = 0, storage_allocator = sample_allocator,
                       resizable = True\<rparr>,
           key = DispatchKey_CPU, dtype = kDouble, sizes = [4611686018427387904],
           strides = [1]\<rparr>,
      \<lparr>next_ptr = 1, live = [(0, 0, 0)]\<rparr>)"
  by (simp add: check_size_nonnegative_def multiply_integers_def checked_mul_def sample_env_def
        empty_generic_def scalarTypeToTypeMeta_def allocate_def sample_allocator_def
        empty_heap_def make_tensor_base_def set_sizes_contiguous_def Let_def)

lemma prod_sint_nonneg:
  "\<forall>x\<in>set xs. 0 \<le> sint x \<Longrightarrow> 0 \<le> prod_list (map sint xs)" for xs :: "int64 list"
  by (induction xs) simp_all

text \<open>
  Claim C3, as amended. For a shape with no negative dimension and every element type,
  the storage of the tensor that \<^verbatim>\<open>empty_generic\<close> returns has, read as an unsigned
  64-bit number, the product of all dimensions times the width of the element type
  modulo \<open>2 ^ 64\<close>; it is that product itself whenever the product is below
  \<open>2 ^ 64\<close>. The product of the empty shape is 1: the storage of a tensor of rank 0
  has the width of one element.
\<close>

theorem storage_byte_size:
  assumes "\<forall>x\<in>set sz. 0 \<le> sint x"
    and "empty_generic e sz a dk T mf h = (Inr t, h')"
  shows "uint (size_bytes (storage t))
           = (prod_list (map sint sz) * uint (itemsize e T)) mod 2 ^ 64 \<and>
         (prod_list (map sint sz) * uint (itemsize e T) < 2 ^ 64 \<longrightarrow>
            uint (size_bytes (storage t)) = prod_list (map sint sz) * uint (itemsize e T)) \<and>
         (sz = [] \<longrightarrow> size_bytes (storage t) = itemsize e T)"
proof -
  from assms(2) obtain n where m: "multiply_integers sz = Inr n"
    and s: "storage t = \<lparr>size_bytes = n * itemsize e T, data_ptr = next_ptr h,
                          storage_allocator = a, resizable = True\<rparr>"
    by (rule empty_generic_Inr)
  have p: "sint n = prod_list (map sint sz)" by (rule multiply_integers_product [OF m])
  have u: "uint (size_bytes (storage t))
      = (prod_list (map sint sz) * uint (itemsize e T)) mod 2 ^ 64"
    using uint_mul_sint [of n "itemsize e T"] by (simp add: s p)
  have nn: "0 \<le> prod_list (map sint sz) * uint (itemsize e T)"
    using prod_sint_nonneg [OF assms(1)] by simp
  have "uint (size_bytes (storage t)) = prod_list (map sint sz) * uint (itemsize e T)"
    if "prod_list (map sint sz) * uint (itemsize e T) < 2 ^ 64"
    using u nn that by simp
  moreover have "size_bytes (storage t) = itemsize e T" if "sz = []"
    using m that by (simp add: s multiply_integers_def)
  ultimately show ?thesis using u by blast
qed

theorem storage_byte_size_witness:
  "0 \<le> sint (2 :: int64) \<and> 0 \<le> sint (3 :: int64) \<and> 0 \<le> sint (4 :: int64) \<and>
   empty_generic sample_env [2, 3, 4] sample_allocator DispatchKey_CPU kFloat None empty_heap =
     (Inr \<lparr>storage = \<lparr>size_bytes = 96, data_ptr = 0, storage_allocator = sample_allocator,
                       resizable = True\<rparr>,
           key = DispatchKey_CPU, dtype = kFloat, sizes = [2, 3, 4], strides = [12, 4, 1]\<rparr>,
      \<lparr>next_ptr = 1, live = [(0, 0, 96)]\<rparr>) \<and>
   uint (96 :: int64) = prod_list (map sint [2, 3, 4 :: int64]) * uint (itemsize sample_env kFloat) \<and>
   empty_generic sample_env [] sample_allocator DispatchKey_CPU kFloat None empty_heap =
     (Inr \<lparr>storage = \<lparr>size_bytes = 4, data_ptr = 0, storage_allocator = sample_allocator,
                       resizable = True\<rparr>,
           key = DispatchKey_CPU, dtype = kFloat, sizes = [], strides = []\<rparr>,
      \<lparr>next_ptr = 1, live = [(0, 0, 4)]\<rparr>)"
proof -
  have a: "\<forall>x\<in>set [2, 3, 4 :: int64]. 0 \<le> sint x" by simp
  have b: "\<forall>x\<in>set ([] :: int64 list). 0 \<le> sint x" by simp
  have r: "empty_generic sample_env [2, 3, 4] sample_allocator DispatchKey_CPU kFloat None empty_heap =
     (Inr \<lparr>storage = \<lparr>size_bytes = 96, data_ptr = 0, storage_allocator = sample_allocator,
                       resizable = True\<rparr>,
           key = DispatchKey_CPU, dtype = kFloat, sizes = [2, 3, 4], strides = [12, 4, 1]\<rparr>,
      \<lparr>next_ptr = 1, live = [(0, 0, 96)]\<rparr>)"
    by (simp add: check_size_nonnegative_def multiply_integers_def checked_mul_def sample_env_def
        empty_generic_def scalarTypeToTypeMeta_def allocate_def sample_allocator_def
        empty_heap_def make_tensor_base_def set_sizes_contiguous_def size_or_one_def Let_def)
  have q: "empty_generic sample_env [] sample_allocator DispatchKey_CPU kFloat None empty_heap =
     (Inr \<lparr>storage = \<lparr>size_bytes = 4, data_ptr = 0, storage_allocator = sample_allocator,
                       resizable = True\<rparr>,
           key = DispatchKey_CPU, dtype = kFloat, sizes = [], strides = []\<rparr>,
      \<lparr>next_ptr = 1, live = [(0, 0, 4)]\<rparr>)"
    by (simp add: check_size_nonnegative_def multiply_integers_def checked_mul_def sample_env_def
        empty_generic_def scalarTypeToTypeMeta_def allocate_def sample_allocator_def
        empty_heap_def make_tensor_base_def set_sizes_contiguous_def size_or_one_def Let_def)
  show ?thesis
    using storage_byte_size [OF a r] storage_byte_size [OF b q] r q
    by (simp add: sample_env_def)
qed

text \<open>
  Claim C3 as stated fails at the shape \<open>[2 ^ 31, 2 ^ 31]\<close> with an element type of
  4 bytes: the product of the dimensions times the width is \<open>2 ^ 64\<close>, and the storage
  returned has 0 bytes.
\<close>

theorem storage_byte_size_wraps:
  "prod_list (map sint [2147483648, 2147483648 :: int64]) * uint (itemsize sample_env kInt)
     = 2 ^ 64 \<and>
   empty_generic sample_env [2147483648, 2147483648] sample_allocator DispatchKey_CPU kInt None
       empty_heap =
     (Inr \<lparr>storage = \<lparr>size_bytes = 0, data_ptr = 0, storage_allocator = sample_allocator,
                       resizable = True\<rparr>,
           key = DispatchKey_CPU, dtype = kInt, sizes = [2147483648, 2147483648],
           strides = [2147483648, 1]\<rparr>,
      \<lparr>next_ptr = 1, live = [(0, 0, 0)]\<rparr>)"
  by (simp add: check_size_nonnegative_def multiply_integers_def checked_mul_def sample_env_def
        empty_generic_def scalarTypeToTypeMeta_def allocate_def sample_allocator_def
        empty_heap_def make_tensor_base_def set_sizes_contiguous_def size_or_one_def Let_def)

subsection \<open>Contiguous strides\<close>






lemma size_or_one_id: "1 \<le> sint d \<Longrightarrow> size_or_one d = d"
  by (simp add: size_or_one_def)













subsection \<open>The overloads of \<^verbatim>\<open>empty_cpu\<close>\<close>

text \<open>
  Claim C9, as amended. The overload on \<^verbatim>\<open>TensorOptions\<close> is the overload on
  optional fields applied to the fields of the options, for every input. The overload on
  optional fields is the overload on resolved values applied to the defaulted element
  type and pinning whenever the internal assertions are compiled out, or the defaulted
  device is the CPU and the defaulted layout is strided. In a debug build with another
  device or layout it fails the internal assertion and allocates nothing.
\<close>

theorem empty_cpu_overloads_agree:
  "empty_cpu_options e sz options h =
     empty_cpu_opt e sz (optTypeMetaToScalarType (dtype_opt options)) (layout_opt options)
       (device_opt options) (pinned_memory_opt options) (memory_format_opt options) h \<and>
   ((debug_asserts e \<longrightarrow>
       dev_type (device_or_default d_opt) = DeviceType_CPU \<and> layout_or_default l_opt = Strided) \<longrightarrow>
      empty_cpu_opt e sz dt_opt l_opt d_opt pin_opt mf_opt h =
        empty_cpu e sz (dtype_or_default e dt_opt) (pinned_memory_or_default pin_opt) mf_opt h) \<and>
   (debug_asserts e \<and>
    (dev_type (device_or_default d_opt) \<noteq> DeviceType_CPU \<or> layout_or_default l_opt \<noteq> Strided) \<longrightarrow>
      empty_cpu_opt e sz dt_opt l_opt d_opt pin_opt mf_opt h = (Inl InternalAssertError, h))"
  by (auto simp: empty_cpu_options_def empty_cpu_opt_def Let_def)

theorem empty_cpu_overloads_agree_witness:
  "debug_asserts sample_env = False \<and>
   empty_cpu_opt sample_env [2, 3] None None
       (Some \<lparr>dev_type = DeviceType_CUDA, dev_index = 0\<rparr>) None None empty_heap =
     empty_cpu sample_env [2, 3] kFloat False None empty_heap \<and>
   debug_asserts sample_debug_env = True \<and>
   dev_type (device_or_default None) = DeviceType_CPU \<and> layout_or_default None = Strided \<and>
   empty_cpu_opt sample_debug_env [2, 3] (Some kLong) None None (Some False) None empty_heap =
     empty_cpu sample_debug_env [2, 3] kLong False None empty_heap \<and>
   dev_type (device_or_default (Some \<lparr>dev_type = DeviceType_CUDA, dev_index = 0\<rparr>))
     = DeviceType_CUDA \<and>
   empty_cpu_opt sample_debug_env [2, 3] None None
       (Some \<lparr>dev_type = DeviceType_CUDA, dev_index = 0\<rparr>) None None empty_heap =
     (Inl InternalAssertError, empty_heap) \<and>
   empty_cpu_options sample_env [2, 3]
       \<lparr>dtype_opt = Some kLong, layout_opt = None, device_opt = None,
         pinned_memory_opt = None, memory_format_opt = None\<rparr> empty_heap =
     empty_cpu sample_env [2, 3] kLong False None empty_heap"
  using
    empty_cpu_overloads_agree [where e = sample_env and sz = "[2, 3]" and dt_opt = None
      and l_opt = None and d_opt = "Some \<lparr>dev_type = DeviceType_CUDA, dev_index = 0\<rparr>"
      and pin_opt = None and mf_opt = None and h = empty_heap
      and options = "\<lparr>dtype_opt = Some kLong, layout_opt = None, device_opt = None,
         pinned_memory_opt = None, memory_format_opt = None\<rparr>"]
    empty_cpu_overloads_agree [where e = sample_env and sz = "[2, 3]" and dt_opt = "Some kLong"
      and l_opt = None and d_opt = None
      and pin_opt = None and mf_opt = None and h = empty_heap]
    empty_cpu_overloads_agree [where e = sample_debug_env and sz = "[2, 3]"
      and dt_opt = "Some kLong" and l_opt = None and d_opt = None and pin_opt = "Some False"
      and mf_opt = None and h = empty_heap]
    empty_cpu_overloads_agree [where e = sample_debug_env and sz = "[2, 3]" and dt_opt = None
      and l_opt = None and d_opt = "Some \<lparr>dev_type = DeviceType_CUDA, dev_index = 0\<rparr>"
      and pin_opt = None and mf_opt = None and h = empty_heap]
  by (simp add: sample_env_def sample_debug_env_def device_or_default_def layout_or_default_def
        dtype_or_default_def pinned_memory_or_default_def optTypeMetaToScalarType_def)

text \<open>
  Claim C9 as stated fails in a debug build at a CUDA device: the overload on optional
  fields stops at its assertion, while the overload on resolved values, applied to the
  defaulted element type and pinning, returns a tensor.
\<close>

theorem debug_assert_breaks_agreement:
  "empty_cpu_opt sample_debug_env [2, 3] None None
       (Some \<lparr>dev_type = DeviceType_CUDA, dev_index = 0\<rparr>) None None empty_heap =
     (Inl InternalAssertError, empty_heap) \<and>
   empty_cpu sample_debug_env [2, 3] (dtype_or_default sample_debug_env None)
       (pinned_memory_or_default None) None empty_heap =
     (Inr \<lparr>storage = \<lparr>size_bytes = 24, data_ptr = 0, storage_allocator = sample_allocator,
                       resizable = True\<rparr>,
           key = DispatchKey_CPU, dtype = kFloat, sizes = [2, 3], strides = [3, 1]\<rparr>,
      \<lparr>next_ptr = 1, live = [(0, 0, 24)]\<rparr>)"
  by (simp add: empty_cpu_opt_def empty_cpu_def device_or_default_def layout_or_default_def
        dtype_or_default_def pinned_memory_or_default_def GetCPUAllocatorMaybePinned_def
        sample_debug_env_def
        check_size_nonnegative_def multiply_integers_def checked_mul_def sample_env_def
        empty_generic_def scalarTypeToTypeMeta_def allocate_def sample_allocator_def
        empty_heap_def make_tensor_base_def set_sizes_contiguous_def size_or_one_def Let_def)

end
